theory Spec2Isabelle
  imports Complex_Main "HOL-Library.Multiset"
begin

section \<open>Data model\<close>

text \<open>
  The analytic functions of \<^verbatim>\<open>doritostats/analytic_utils.py\<close> read three kinds of
  objects supplied by the ESPN client: box-score players, teams and the league.
  Only the attributes the functions read are kept.  Scores and points are doubles;
  a double is modelled by the real number it stands for, so comparisons, sorting and
  \<^verbatim>\<open>max\<close> are exact.  The values a NumPy division by zero produces (\<^verbatim>\<open>nan\<close>,
  \<^verbatim>\<open>inf\<close>, \<^verbatim>\<open>-inf\<close>) are explicit constructors of \<open>np_float\<close>.  Where the rounding
  of an operation on doubles decides what a function does (the tests on
  \<^verbatim>\<open>np.std\<close>, the sum that \<^verbatim>\<open>round\<close> receives) the operation is a parameter;
  elsewhere arithmetic is that of the reals.
\<close>

datatype py_error = IndexError | ValueError | ZeroDivisionError | KeyError

record player =
  playerId :: nat
  points :: real
  eligibleSlots :: "string list"
  slot_position :: string

text \<open>
  A team's \<^verbatim>\<open>schedule\<close> is a list of references to the opposing teams.  The
  functions below read only the \<^verbatim>\<open>scores\<close> of an opponent, so a schedule entry is a
  team value of its own (whose schedule may be left empty).
\<close>

datatype team = Team (team_id: nat) (scores: "real list") (schedule: "team list")

text \<open>
  \<open>starting_roster_slots\<close> is \<^verbatim>\<open>league.roster_settings["starting_roster_slots"]\<close>, a
  dict from slot label to required count, kept as an association list in the
  dict's insertion order.
\<close>

record league =
  teams :: "team list"
  starting_roster_slots :: "(string \<times> int) list"

section \<open>Python list primitives\<close>

text \<open>\<^verbatim>\<open>xs[:n]\<close>: for a negative \<open>n\<close> the last \<open>-n\<close> elements are dropped.\<close>

definition py_slice_to :: "'a list \<Rightarrow> int \<Rightarrow> 'a list" where
  "py_slice_to xs n =
     (if 0 \<le> n then take (nat n) xs else take (nat (int (length xs) + n)) xs)"

text \<open>\<^verbatim>\<open>xs[i]\<close>: a negative index counts from the end, out of range raises.\<close>

definition py_index :: "'a list \<Rightarrow> int \<Rightarrow> py_error + 'a" where
  "py_index xs i =
     (if 0 \<le> i \<and> i < int (length xs) then Inr (xs ! nat i)
      else if i < 0 \<and> - int (length xs) \<le> i then Inr (xs ! nat (int (length xs) + i))
      else Inl IndexError)"

section \<open>Lineup optimizer\<close>

text \<open>
  \<^verbatim>\<open>sorted(eligible_players, key=lambda x: x.points, reverse=True)\<close>: Python's sort is
  stable and stays stable under \<^verbatim>\<open>reverse=True\<close>, which is a stable sort on the
  negated key.
\<close>

definition get_top_players :: "player list \<Rightarrow> string \<Rightarrow> int \<Rightarrow> player list" where
  "get_top_players lineup slot n =
     (let eligible_players = filter (\<lambda>player. slot \<in> set (eligibleSlots player)) lineup
      in py_slice_to (sort_key (\<lambda>x. - points x) eligible_players) n)"

text \<open>
  \<^verbatim>\<open>for player in best_players: saved_roster.remove(player)\<close>.  \<^verbatim>\<open>list.remove\<close>
  deletes the first equal element and raises \<^verbatim>\<open>ValueError\<close> when there is none.
\<close>

fun remove_players :: "player list \<Rightarrow> player list \<Rightarrow> py_error + player list" where
  "remove_players saved_roster [] = Inr saved_roster"
| "remove_players saved_roster (player # best_players) =
     (if player \<in> set saved_roster
      then remove_players (remove1 player saved_roster) best_players
      else Inl ValueError)"

text \<open>
  The loop of \<^verbatim>\<open>get_best_lineup\<close> over the slots, already in the order
  \<^verbatim>\<open>sorted(..., key=len)\<close>; the state is the pair of \<^verbatim>\<open>saved_roster\<close> and
  \<^verbatim>\<open>best_lineup\<close>.
\<close>

fun best_lineup_loop ::
  "(string \<times> int) list \<Rightarrow> player list \<Rightarrow> player list \<Rightarrow> py_error + player list" where
  "best_lineup_loop [] saved_roster best_lineup = Inr best_lineup"
| "best_lineup_loop ((slot, num_players) # slots) saved_roster best_lineup =
     (let best_players = get_top_players saved_roster slot num_players
      in case remove_players saved_roster best_players of
           Inl e \<Rightarrow> Inl e
         | Inr saved_roster' \<Rightarrow>
             best_lineup_loop slots saved_roster' (best_lineup @ best_players))"

text \<open>
  \<^verbatim>\<open>sorted(d.keys(), key=len)\<close> followed by the lookup \<^verbatim>\<open>d[slot]\<close> of each key is the
  stable sort of the dict's items on the length of the key.
\<close>

definition sorted_slots :: "league \<Rightarrow> (string \<times> int) list" where
  "sorted_slots league = sort_key (\<lambda>(slot, num_players). length slot) (starting_roster_slots league)"

definition best_lineup :: "league \<Rightarrow> player list \<Rightarrow> py_error + player list" where
  "best_lineup league lineup = best_lineup_loop (sorted_slots league) lineup []"

definition get_best_lineup :: "league \<Rightarrow> player list \<Rightarrow> py_error + real" where
  "get_best_lineup league lineup =
     (case best_lineup league lineup of
        Inl e \<Rightarrow> Inl e
      | Inr bl \<Rightarrow> Inr (sum_list (map points bl)))"

text \<open>
  The selections of the loop, slot by slot: the slot, the roster still available
  when the slot is processed, and the players picked for it.  This is the loop
  above with the removal written as \<open>remove1\<close>; \<open>best_lineup_loop_selections\<close>
  relates the two.
\<close>

fun slot_selections ::
  "(string \<times> int) list \<Rightarrow> player list \<Rightarrow> (string \<times> player list \<times> player list) list" where
  "slot_selections [] roster = []"
| "slot_selections ((slot, num_players) # slots) roster =
     (let best_players = get_top_players roster slot num_players
      in (slot, roster, best_players)
           # slot_selections slots (foldl (\<lambda>r p. remove1 p r) roster best_players))"

abbreviation (input) picks :: "string \<times> player list \<times> player list \<Rightarrow> player list" where
  "picks \<equiv> \<lambda>e. snd (snd e)"

text \<open>
  Python's \<^verbatim>\<open>round(x, 2)\<close> rounds the exact value of the double \<open>x\<close> to the nearest
  hundredth, a tie to the even one, and returns the double nearest to that decimal.
  \<open>py_round2\<close> is this rounding on the value of \<open>x\<close>; its result is the decimal.
\<close>

definition py_round2 :: "real \<Rightarrow> real" where
  "py_round2 x =
     (let y = x * 100; f = \<lfloor>y\<rfloor>
      in if y - of_int f < 1 / 2 then of_int f / 100
         else if 1 / 2 < y - of_int f then of_int (f + 1) / 100
         else if even f then of_int f / 100 else of_int (f + 1) / 100)"

text \<open>
  \<^verbatim>\<open>round(qb + rb + max(wr, te), 2)\<close>.  A rounding to hundredths is not continuous,
  so the rounding of the two additions of doubles matters for the result: the
  addition of doubles is the parameter \<open>float_add\<close> (the sum rounded to a double).
  \<^verbatim>\<open>max\<close> is exact.
\<close>

definition get_best_trio ::
  "(real \<Rightarrow> real \<Rightarrow> real) \<Rightarrow> league \<Rightarrow> player list \<Rightarrow> py_error + real" where
  "get_best_trio float_add league lineup =
     (case py_index (get_top_players lineup ''QB'' 1) 0 of Inl e \<Rightarrow> Inl e | Inr qb \<Rightarrow>
      case py_index (get_top_players lineup ''RB'' 1) 0 of Inl e \<Rightarrow> Inl e | Inr rb \<Rightarrow>
      case py_index (get_top_players lineup ''WR'' 1) 0 of Inl e \<Rightarrow> Inl e | Inr wr \<Rightarrow>
      case py_index (get_top_players lineup ''TE'' 1) 0 of Inl e \<Rightarrow> Inl e | Inr te \<Rightarrow>
      Inr (py_round2
             (float_add (float_add (points qb) (points rb)) (max (points wr) (points te)))))"

section \<open>NumPy floats\<close>

text \<open>
  \<^verbatim>\<open>np.sum\<close>, \<^verbatim>\<open>np.mean\<close> and \<^verbatim>\<open>np.std\<close> return \<^verbatim>\<open>np.float64\<close>, whose arithmetic
  does not raise: a division by zero gives \<^verbatim>\<open>nan\<close> or an infinity, which then
  propagate.  A finite value is the real number the double stands for; the
  arithmetic below does not round or overflow, and there is one zero.
\<close>

datatype np_float = Finite real | PosInf | NegInf | NaN

fun np_neg :: "np_float \<Rightarrow> np_float" where
  "np_neg (Finite a) = Finite (- a)"
| "np_neg PosInf = NegInf"
| "np_neg NegInf = PosInf"
| "np_neg NaN = NaN"

fun np_add :: "np_float \<Rightarrow> np_float \<Rightarrow> np_float" where
  "np_add (Finite a) (Finite b) = Finite (a + b)"
| "np_add NaN _ = NaN"
| "np_add _ NaN = NaN"
| "np_add PosInf NegInf = NaN"
| "np_add NegInf PosInf = NaN"
| "np_add PosInf _ = PosInf"
| "np_add _ PosInf = PosInf"
| "np_add NegInf _ = NegInf"
| "np_add _ NegInf = NegInf"

definition np_sub :: "np_float \<Rightarrow> np_float \<Rightarrow> np_float" where
  "np_sub a b = np_add a (np_neg b)"

fun np_mul :: "np_float \<Rightarrow> np_float \<Rightarrow> np_float" where
  "np_mul (Finite a) (Finite b) = Finite (a * b)"
| "np_mul NaN _ = NaN"
| "np_mul _ NaN = NaN"
| "np_mul PosInf (Finite b) = (if b = 0 then NaN else if 0 < b then PosInf else NegInf)"
| "np_mul NegInf (Finite b) = (if b = 0 then NaN else if 0 < b then NegInf else PosInf)"
| "np_mul (Finite a) PosInf = (if a = 0 then NaN else if 0 < a then PosInf else NegInf)"
| "np_mul (Finite a) NegInf = (if a = 0 then NaN else if 0 < a then NegInf else PosInf)"
| "np_mul PosInf PosInf = PosInf"
| "np_mul NegInf NegInf = PosInf"
| "np_mul PosInf NegInf = NegInf"
| "np_mul NegInf PosInf = NegInf"

fun np_div :: "np_float \<Rightarrow> np_float \<Rightarrow> np_float" where
  "np_div (Finite a) (Finite b) =
     (if b = 0 then (if a = 0 then NaN else if 0 < a then PosInf else NegInf)
      else Finite (a / b))"
| "np_div NaN _ = NaN"
| "np_div _ NaN = NaN"
| "np_div (Finite a) _ = Finite 0"
| "np_div PosInf (Finite b) = (if 0 \<le> b then PosInf else NegInf)"
| "np_div NegInf (Finite b) = (if 0 \<le> b then NegInf else PosInf)"
| "np_div _ _ = NaN"

text \<open>\<^verbatim>\<open>np.isfinite\<close>: neither \<^verbatim>\<open>nan\<close> nor an infinity.\<close>

fun np_isfinite :: "np_float \<Rightarrow> bool" where
  "np_isfinite (Finite a) = True"
| "np_isfinite _ = False"

text \<open>
  \<^verbatim>\<open>np.mean\<close> and \<^verbatim>\<open>np.std\<close> are functions of the imported module \<^verbatim>\<open>np\<close>.  They
  compute in doubles, and what they return on a list is not the exact mean and
  standard deviation of its values (the standard deviation of three equal scores
  need not be 0).  The module is therefore a parameter of the functions that call
  them, and nothing is assumed about the two functions.
\<close>

record numpy =
  np_mean :: "real list \<Rightarrow> np_float"
  np_std :: "real list \<Rightarrow> np_float"

definition get_lineup_efficiency :: "league \<Rightarrow> player list \<Rightarrow> py_error + np_float" where
  "get_lineup_efficiency league lineup =
     (case get_best_lineup league lineup of
        Inl e \<Rightarrow> Inl e
      | Inr max_score \<Rightarrow>
          let real_score = sum_list (map points
                (filter (\<lambda>player. slot_position player \<notin> {''BE'', ''IR''}) lineup))
          in Inr (np_div (Finite real_score) (Finite max_score)))"

section \<open>Luck index\<close>

text \<open>\<^verbatim>\<open>[tm.scores[week - 1] for tm in league.teams]\<close>\<close>

fun league_scores :: "team list \<Rightarrow> int \<Rightarrow> py_error + real list" where
  "league_scores [] week = Inr []"
| "league_scores (tm # tms) week =
     (case py_index (scores tm) (week - 1) of
        Inl e \<Rightarrow> Inl e
      | Inr s \<Rightarrow> (case league_scores tms week of Inl e \<Rightarrow> Inl e | Inr ss \<Rightarrow> Inr (s # ss)))"

text \<open>\<^verbatim>\<open>xs.index(x)\<close>: the first position holding \<open>x\<close>, \<^verbatim>\<open>ValueError\<close> when there is none.\<close>

fun py_list_index :: "'a list \<Rightarrow> 'a \<Rightarrow> py_error + nat" where
  "py_list_index [] x = Inl ValueError"
| "py_list_index (y # ys) x =
     (if y = x then Inr 0
      else case py_list_index ys x of Inl e \<Rightarrow> Inl e | Inr i \<Rightarrow> Inr (Suc i))"

definition get_weekly_finish :: "league \<Rightarrow> team \<Rightarrow> int \<Rightarrow> py_error + int" where
  "get_weekly_finish league team week =
     (case league_scores (teams league) week of Inl e \<Rightarrow> Inl e | Inr ls \<Rightarrow>
      case py_index (scores team) (week - 1) of Inl e \<Rightarrow> Inl e | Inr s \<Rightarrow>
      case py_list_index (rev (sort ls)) s of Inl e \<Rightarrow> Inl e | Inr i \<Rightarrow>
      Inr (int i + 1))"

text \<open>Python's \<^verbatim>\<open>/\<close> on \<^verbatim>\<open>int\<close> and \<^verbatim>\<open>float\<close> operands raises on a zero divisor.\<close>

definition py_truediv :: "real \<Rightarrow> real \<Rightarrow> py_error + real" where
  "py_truediv a b = (if b = 0 then Inl ZeroDivisionError else Inr (a / b))"

definition w_sched :: real where "w_sched = 7"
definition w_team :: real where "w_team = 2"
definition w_opp :: real where "w_opp = 1"

text \<open>
  The first part of \<^verbatim>\<open>get_weekly_luck_index\<close>: the \<^verbatim>\<open>if\<close>/\<^verbatim>\<open>elif\<close> chain on the two
  ranks that initialises \<^verbatim>\<open>luck_index\<close>.
\<close>

definition schedule_luck :: "int \<Rightarrow> int \<Rightarrow> int \<Rightarrow> py_error + real" where
  "schedule_luck rank opp_rank num_teams =
     (if rank < opp_rank then
        py_truediv (w_sched * of_int (rank - 1)) (of_int (num_teams - 1))
      else if rank > opp_rank then
        py_truediv (- w_sched * of_int (num_teams - rank)) (of_int (num_teams - 1))
      else if of_int rank < (of_int num_teams / 2 :: real) then
        py_truediv (- w_sched / 2 * of_int (num_teams - rank - 1)) (of_int (num_teams - 1))
      else
        py_truediv (w_sched / 2 * of_int (rank - 1)) (of_int (num_teams - 1)))"

text \<open>
  The z-score blocks.  Both are guarded by \<^verbatim>\<open>team_std != 0\<close>; the second divides
  by \<^verbatim>\<open>opp_std\<close>.
\<close>

definition team_adjust :: "np_float \<Rightarrow> real \<Rightarrow> np_float \<Rightarrow> np_float \<Rightarrow> np_float" where
  "team_adjust luck_index team_score team_avg team_std =
     (if team_std \<noteq> Finite 0 then
        let z = np_div (np_sub (Finite team_score) team_avg) team_std;
            z_norm = np_mul (np_div z (Finite 2)) (Finite w_team)
        in np_add luck_index z_norm
      else luck_index)"

definition opp_adjust ::
  "np_float \<Rightarrow> np_float \<Rightarrow> real \<Rightarrow> np_float \<Rightarrow> np_float \<Rightarrow> np_float" where
  "opp_adjust luck_index team_std opp_score opp_avg opp_std =
     (if team_std \<noteq> Finite 0 then
        let z = np_div (np_sub (Finite opp_score) opp_avg) opp_std;
            z_norm = np_mul (np_div z (Finite 2)) (Finite w_opp)
        in np_sub luck_index z_norm
      else luck_index)"

definition get_weekly_luck_index ::
  "numpy \<Rightarrow> league \<Rightarrow> team \<Rightarrow> int \<Rightarrow> py_error + np_float" where
  "get_weekly_luck_index np league team week =
     (case py_index (schedule team) (week - 1) of Inl e \<Rightarrow> Inl e | Inr opp \<Rightarrow>
      let num_teams = int (length (teams league)) in
      case get_weekly_finish league team week of Inl e \<Rightarrow> Inl e | Inr rank \<Rightarrow>
      case get_weekly_finish league opp week of Inl e \<Rightarrow> Inl e | Inr opp_rank \<Rightarrow>
      case schedule_luck rank opp_rank num_teams of Inl e \<Rightarrow> Inl e | Inr luck_index \<Rightarrow>
      case py_index (scores team) (week - 1) of Inl e \<Rightarrow> Inl e | Inr team_score \<Rightarrow>
      let team_avg = np_mean np (py_slice_to (scores team) week);
          team_std = np_std np (py_slice_to (scores team) week);
          luck_index1 = team_adjust (Finite luck_index) team_score team_avg team_std in
      case py_index (scores opp) (week - 1) of Inl e \<Rightarrow> Inl e | Inr opp_score \<Rightarrow>
      let opp_avg = np_mean np (py_slice_to (scores opp) week);
          opp_std = np_std np (py_slice_to (scores opp) week);
          luck_index2 = opp_adjust luck_index1 team_std opp_score opp_avg opp_std
      in Inr (np_div luck_index2 (Finite (w_sched + w_team + w_opp))))"

text \<open>
  \<^verbatim>\<open>get_season_luck_indices\<close>.  The dict \<^verbatim>\<open>luck_indices\<close> is keyed by the team
  objects; the model keys it by \<open>team_id\<close>.  The inner loop is over the teams, the
  outer one over \<^verbatim>\<open>range(1, week + 1)\<close>; the body calls
  \<^verbatim>\<open>get_weekly_luck_index(league, team, week)\<close>, with \<^verbatim>\<open>week\<close> and not the loop
  variable \<^verbatim>\<open>wk\<close>.
\<close>

fun season_teams_loop ::
  "numpy \<Rightarrow> league \<Rightarrow> int \<Rightarrow> team list \<Rightarrow> (nat \<rightharpoonup> np_float)
   \<Rightarrow> py_error + (nat \<rightharpoonup> np_float)" where
  "season_teams_loop np league week [] luck_indices = Inr luck_indices"
| "season_teams_loop np league week (team # rest) luck_indices =
     (case luck_indices (team_id team) of None \<Rightarrow> Inl KeyError | Some cur \<Rightarrow>
      case get_weekly_luck_index np league team week of Inl e \<Rightarrow> Inl e | Inr v \<Rightarrow>
      season_teams_loop np league week rest (luck_indices(team_id team \<mapsto> np_add cur v)))"

fun season_weeks_loop ::
  "numpy \<Rightarrow> league \<Rightarrow> int \<Rightarrow> int list \<Rightarrow> (nat \<rightharpoonup> np_float)
   \<Rightarrow> py_error + (nat \<rightharpoonup> np_float)" where
  "season_weeks_loop np league week [] luck_indices = Inr luck_indices"
| "season_weeks_loop np league week (wk # wks) luck_indices =
     (case season_teams_loop np league week (teams league) luck_indices of
        Inl e \<Rightarrow> Inl e
      | Inr luck_indices' \<Rightarrow> season_weeks_loop np league week wks luck_indices')"

definition get_season_luck_indices ::
  "numpy \<Rightarrow> league \<Rightarrow> int \<Rightarrow> py_error + (nat \<rightharpoonup> np_float)" where
  "get_season_luck_indices np league week =
     season_weeks_loop np league week [1..week]
       (map_of (map (\<lambda>team. (team_id team, Finite 0)) (teams league)))"

text \<open>
  The inputs on which \<^verbatim>\<open>get_weekly_luck_index\<close> is meant to run: the week is
  numbered from 1, every team of the league has a score for it, the team is in the
  league, its opponent of that week is a team of the league (by its id and scores),
  and the league has at least two teams.
\<close>

definition week_recorded :: "league \<Rightarrow> team \<Rightarrow> int \<Rightarrow> bool" where
  "week_recorded league team week \<longleftrightarrow>
     1 \<le> week
     \<and> (\<forall>t \<in> set (teams league). week \<le> int (length (scores t)))
     \<and> team \<in> set (teams league)
     \<and> week \<le> int (length (schedule team))
     \<and> (\<exists>t \<in> set (teams league).
            team_id t = team_id (schedule team ! nat (week - 1))
          \<and> scores t = scores (schedule team ! nat (week - 1)))
     \<and> 2 \<le> length (teams league)"

text \<open>
  An assignment of players of a lineup to starting slots, as a list of pairs of a
  slot and a player.  It is legal when every assigned player is in the lineup and
  eligible for its slot, the slot is one of the required ones, no player is
  assigned twice, and no slot receives more players than its required count.
\<close>

definition legal_assignment ::
  "(string \<times> int) list \<Rightarrow> player list \<Rightarrow> (string \<times> player) list \<Rightarrow> bool" where
  "legal_assignment slots lineup asg \<longleftrightarrow>
     list_all (\<lambda>(slot, p). p \<in> set lineup \<and> slot \<in> set (eligibleSlots p)
                 \<and> slot \<in> set (map fst slots)) asg
     \<and> distinct (map snd asg)
     \<and> list_all (\<lambda>(slot, n). int (length (filter (\<lambda>(s, p). s = slot) asg)) \<le> n) slots"

section \<open>Example data\<close>

text \<open>
  What \<^verbatim>\<open>np.mean\<close> and \<^verbatim>\<open>np.std\<close> return on the score lists of the examples below:
  each list with its mean and its standard deviation.  On these lists every
  intermediate value of the computation is a double, so the values are exact.
  Lists outside the table are not used.
\<close>

definition ex_numpy_table :: "(real list \<times> real \<times> real) list" where
  "ex_numpy_table =
     [([100], 100, 0), ([90], 90, 0),
      ([100, 100], 100, 0), ([90, 90], 90, 0), ([110, 110], 110, 0), ([80, 80], 80, 0),
      ([90, 110], 100, 10), ([95, 120], 107.5, 12.5), ([80, 70], 75, 5)]"

definition ex_numpy :: numpy where
  "ex_numpy =
     \<lparr>np_mean = (\<lambda>xs. case map_of ex_numpy_table xs of
                        Some (m, sd) \<Rightarrow> Finite m | None \<Rightarrow> NaN),
      np_std = (\<lambda>xs. case map_of ex_numpy_table xs of
                        Some (m, sd) \<Rightarrow> Finite sd | None \<Rightarrow> NaN)\<rparr>"

text \<open>A week in which four teams score 100, 90, 90 and 80.\<close>

definition ex_scores_league :: league where
  "ex_scores_league =
     \<lparr>teams = [Team 1 [100] [], Team 2 [90] [], Team 3 [90] [], Team 4 [80] []],
      starting_roster_slots = []\<rparr>"

text \<open>A league with a flex slot listed before the single-position slots.\<close>

definition ex_flex_league :: league where
  "ex_flex_league =
     \<lparr>teams = [], starting_roster_slots = [(''RB/WR/TE'', 1), (''QB'', 1), (''RB'', 1)]\<rparr>"

definition ex_flex_lineup :: "player list" where
  "ex_flex_lineup =
     [\<lparr>playerId = 1, points = 15, eligibleSlots = [''RB'', ''RB/WR/TE'', ''BE''], slot_position = ''RB''\<rparr>,
      \<lparr>playerId = 2, points = 20, eligibleSlots = [''QB'', ''BE''], slot_position = ''QB''\<rparr>,
      \<lparr>playerId = 3, points = 12, eligibleSlots = [''WR'', ''RB/WR/TE'', ''BE''], slot_position = ''RB/WR/TE''\<rparr>,
      \<lparr>playerId = 4, points = 18, eligibleSlots = [''RB'', ''RB/WR/TE'', ''BE''], slot_position = ''BE''\<rparr>]"

text \<open>A lineup holding a quarterback, two running backs, a receiver and a tight end.\<close>

definition ex_trio_lineup :: "player list" where
  "ex_trio_lineup =
     [\<lparr>playerId = 1, points = 20.125, eligibleSlots = [''QB''], slot_position = ''QB''\<rparr>,
      \<lparr>playerId = 2, points = 15, eligibleSlots = [''RB'', ''RB/WR/TE''], slot_position = ''RB''\<rparr>,
      \<lparr>playerId = 3, points = 10, eligibleSlots = [''RB'', ''RB/WR/TE''], slot_position = ''RB''\<rparr>,
      \<lparr>playerId = 4, points = 12, eligibleSlots = [''WR'', ''RB/WR/TE''], slot_position = ''WR''\<rparr>,
      \<lparr>playerId = 5, points = 14.5, eligibleSlots = [''TE'', ''RB/WR/TE''], slot_position = ''TE''\<rparr>]"

text \<open>Four teams, the first two tied at the top in week 1 and facing each other.\<close>

definition ex_tie_league :: league where
  "ex_tie_league =
     \<lparr>teams = [Team 1 [100] [Team 2 [100] []], Team 2 [100] [Team 1 [100] []],
               Team 3 [90] [Team 4 [90] []], Team 4 [90] [Team 3 [90] []]],
      starting_roster_slots = []\<rparr>"

text \<open>
  Two weeks of four teams: team 1 has a flat history, the others do not; teams 1 and
  2 meet in both weeks.
\<close>

definition ex_luck_league :: league where
  "ex_luck_league =
     \<lparr>teams = [Team 1 [100, 100] [Team 2 [90, 110] [], Team 2 [90, 110] []],
               Team 2 [90, 110] [Team 1 [100, 100] [], Team 1 [100, 100] []],
               Team 3 [95, 120] [Team 4 [80, 70] [], Team 4 [80, 70] []],
               Team 4 [80, 70] [Team 3 [95, 120] [], Team 3 [95, 120] []]],
      starting_roster_slots = []\<rparr>"

text \<open>Two weeks of four teams with flat histories and a different opponent each week.\<close>

definition ex_season_league :: league where
  "ex_season_league =
     \<lparr>teams = [Team 1 [100, 100] [Team 2 [90, 90] [], Team 3 [110, 110] []],
               Team 2 [90, 90] [Team 1 [100, 100] [], Team 4 [80, 80] []],
               Team 3 [110, 110] [Team 4 [80, 80] [], Team 1 [100, 100] []],
               Team 4 [80, 80] [Team 3 [110, 110] [], Team 2 [90, 90] []]],
      starting_roster_slots = []\<rparr>"

text \<open>A league with two overlapping flex slots, a receiver and a running back.\<close>

definition ex_two_flex_league :: league where
  "ex_two_flex_league =
     \<lparr>teams = [], starting_roster_slots = [(''RB/WR'', 1), (''WR/TE'', 1)]\<rparr>"

definition ex_wr :: player where
  "ex_wr = \<lparr>playerId = 1, points = 20,
            eligibleSlots = [''WR'', ''RB/WR'', ''WR/TE'', ''BE'', ''IR''], slot_position = ''RB/WR''\<rparr>"

definition ex_rb :: player where
  "ex_rb = \<lparr>playerId = 2, points = 5,
            eligibleSlots = [''RB'', ''RB/WR'', ''BE'', ''IR''], slot_position = ''BE''\<rparr>"

text \<open>
  The starting slots of the league of the repository's tests, a player eligible for
  both QB and TE, and a quarterback.
\<close>

definition ex_test_league :: league where
  "ex_test_league =
     \<lparr>teams = [],
      starting_roster_slots = [(''QB'', 1), (''RB'', 2), (''WR'', 2), (''TE'', 1),
        (''D/ST'', 1), (''K'', 1), (''RB/WR/TE'', 2)]\<rparr>"

definition ex_qb_te :: player where
  "ex_qb_te = \<lparr>playerId = 3, points = 20,
               eligibleSlots = [''QB'', ''TE'', ''BE'', ''IR''], slot_position = ''TE''\<rparr>"

definition ex_qb :: player where
  "ex_qb = \<lparr>playerId = 4, points = 10,
            eligibleSlots = [''QB'', ''BE'', ''IR''], slot_position = ''QB''\<rparr>"

section \<open>Properties of \<open>get_top_players\<close>\<close>

lemma sort_key_neg_descending:
  "sorted_wrt (\<lambda>a b. points b \<le> points a) (sort_key (\<lambda>x. - points x) xs)"
proof -
  have "sorted (map (\<lambda>x. - points x) (sort_key (\<lambda>x. - points x) xs))"
    by (rule sorted_sort_key)
  then show ?thesis
    by (simp add: sorted_map)
qed

text \<open>
  Claim C8.  For a count \<open>n \<ge> 0\<close>, \<open>get_top_players lineup slot n\<close> is the first \<open>n\<close>
  elements (all of them when there are fewer) of a list that holds exactly the
  players of the lineup eligible for the slot, is ordered by points descending, and
  keeps players of equal points in their lineup order.
\<close>

theorem get_top_players_spec:
  assumes "0 \<le> n"
  shows "\<exists>ys. mset ys = mset (filter (\<lambda>p. slot \<in> set (eligibleSlots p)) lineup)
            \<and> sorted_wrt (\<lambda>a b. points b \<le> points a) ys
            \<and> (\<forall>k. filter (\<lambda>p. points p = k) ys
                    = filter (\<lambda>p. points p = k)
                        (filter (\<lambda>p. slot \<in> set (eligibleSlots p)) lineup))
            \<and> get_top_players lineup slot n = take (nat n) ys
            \<and> length (get_top_players lineup slot n)
                = min (nat n) (length (filter (\<lambda>p. slot \<in> set (eligibleSlots p)) lineup))"
proof -
  let ?el = "filter (\<lambda>p. slot \<in> set (eligibleSlots p)) lineup"
  let ?ys = "sort_key (\<lambda>x. - points x) ?el"
  have stable: "filter (\<lambda>p. points p = k) ?ys = filter (\<lambda>p. points p = k) ?el" for k
    using sort_key_stable [of "\<lambda>x. - points x" "- k" ?el] by simp
  have "mset ?ys = mset ?el" by simp
  moreover have "sorted_wrt (\<lambda>a b. points b \<le> points a) ?ys"
    by (rule sort_key_neg_descending)
  moreover have "get_top_players lineup slot n = take (nat n) ?ys"
    using assms by (simp add: get_top_players_def py_slice_to_def)
  moreover have "length (get_top_players lineup slot n) = min (nat n) (length ?el)"
    using assms by (simp add: get_top_players_def py_slice_to_def min.commute)
  ultimately show ?thesis
    using stable by blast
qed

theorem get_top_players_spec_witness:
  "(0::int) \<le> 2 \<and>
   (\<exists>ys. mset ys = mset (filter (\<lambda>p. ''RB/WR'' \<in> set (eligibleSlots p))
              [\<lparr>playerId = 1, points = 5, eligibleSlots = [''RB'', ''RB/WR''], slot_position = ''RB''\<rparr>,
               \<lparr>playerId = 2, points = 20, eligibleSlots = [''WR'', ''RB/WR''], slot_position = ''WR''\<rparr>,
               \<lparr>playerId = 3, points = 9, eligibleSlots = [''QB''], slot_position = ''QB''\<rparr>,
               \<lparr>playerId = 4, points = 20, eligibleSlots = [''RB'', ''RB/WR''], slot_position = ''BE''\<rparr>])
      \<and> get_top_players
              [\<lparr>playerId = 1, points = 5, eligibleSlots = [''RB'', ''RB/WR''], slot_position = ''RB''\<rparr>,
               \<lparr>playerId = 2, points = 20, eligibleSlots = [''WR'', ''RB/WR''], slot_position = ''WR''\<rparr>,
               \<lparr>playerId = 3, points = 9, eligibleSlots = [''QB''], slot_position = ''QB''\<rparr>,
               \<lparr>playerId = 4, points = 20, eligibleSlots = [''RB'', ''RB/WR''], slot_position = ''BE''\<rparr>]
              ''RB/WR'' 2 = take (nat 2) ys)
   \<and> get_top_players
              [\<lparr>playerId = 1, points = 5, eligibleSlots = [''RB'', ''RB/WR''], slot_position = ''RB''\<rparr>,
               \<lparr>playerId = 2, points = 20, eligibleSlots = [''WR'', ''RB/WR''], slot_position = ''WR''\<rparr>,
               \<lparr>playerId = 3, points = 9, eligibleSlots = [''QB''], slot_position = ''QB''\<rparr>,
               \<lparr>playerId = 4, points = 20, eligibleSlots = [''RB'', ''RB/WR''], slot_position = ''BE''\<rparr>]
              ''RB/WR'' 2
       = [\<lparr>playerId = 2, points = 20, eligibleSlots = [''WR'', ''RB/WR''], slot_position = ''WR''\<rparr>,
          \<lparr>playerId = 4, points = 20, eligibleSlots = [''RB'', ''RB/WR''], slot_position = ''BE''\<rparr>]"
proof -
  have h: "(0::int) \<le> 2" by simp
  have e: "get_top_players
              [\<lparr>playerId = 1, points = 5, eligibleSlots = [''RB'', ''RB/WR''], slot_position = ''RB''\<rparr>,
               \<lparr>playerId = 2, points = 20, eligibleSlots = [''WR'', ''RB/WR''], slot_position = ''WR''\<rparr>,
               \<lparr>playerId = 3, points = 9, eligibleSlots = [''QB''], slot_position = ''QB''\<rparr>,
               \<lparr>playerId = 4, points = 20, eligibleSlots = [''RB'', ''RB/WR''], slot_position = ''BE''\<rparr>]
              ''RB/WR'' 2
       = [\<lparr>playerId = 2, points = 20, eligibleSlots = [''WR'', ''RB/WR''], slot_position = ''WR''\<rparr>,
          \<lparr>playerId = 4, points = 20, eligibleSlots = [''RB'', ''RB/WR''], slot_position = ''BE''\<rparr>]"
    by (simp add: get_top_players_def py_slice_to_def)
  from get_top_players_spec [OF h, of "''RB/WR''"] e h show ?thesis by blast
qed

section \<open>Properties of \<open>get_weekly_finish\<close>\<close>

lemma league_scores_total:
  "\<forall>t \<in> set tms. 1 \<le> week \<and> week \<le> int (length (scores t)) \<Longrightarrow>
   league_scores tms week = Inr (map (\<lambda>t. scores t ! nat (week - 1)) tms)"
  by (induction tms) (auto simp: py_index_def)

lemma py_list_index_descending:
  "sorted_wrt (\<lambda>a b. b \<le> a) ys \<Longrightarrow> x \<in> set ys \<Longrightarrow>
   py_list_index ys (x::real) = Inr (length (filter (\<lambda>y. x < y) ys))"
proof (induction ys)
  case Nil
  then show ?case by simp
next
  case (Cons y ys)
  show ?case
  proof (cases "y = x")
    case True
    with Cons.prems have "filter (\<lambda>z. x < z) (y # ys) = []"
      by (auto simp: filter_empty_conv)
    with True show ?thesis by simp
  next
    case False
    with Cons.prems have xin: "x \<in> set ys" and "x < y" by auto
    moreover from Cons.prems have "sorted_wrt (\<lambda>a b. b \<le> a) ys" by simp
    ultimately show ?thesis using False Cons.IH by simp
  qed
qed

lemma length_filter_rev_sort:
  "length (filter P (rev (sort (xs::real list)))) = length (filter P xs)"
proof -
  have "mset (filter P (rev (sort xs))) = mset (filter P xs)"
    by simp
  then show ?thesis
    by (rule mset_eq_length)
qed

lemma descending_rev_sort: "sorted_wrt (\<lambda>a b. b \<le> a) (rev (sort (xs::real list)))"
  by (simp add: sorted_wrt_rev)

lemma weekly_finish_count:
  assumes "\<forall>t \<in> set (teams league). 1 \<le> week \<and> week \<le> int (length (scores t))"
    and "\<exists>t \<in> set (teams league). scores t = scores team"
  shows "get_weekly_finish league team week
         = Inr (1 + int (length (filter
                  (\<lambda>t. scores team ! nat (week - 1) < scores t ! nat (week - 1))
                  (teams league))))"
proof -
  let ?f = "\<lambda>t. scores t ! nat (week - 1)"
  let ?ls = "map ?f (teams league)"
  from assms(2) obtain u where u: "u \<in> set (teams league)" "scores u = scores team"
    by blast
  have ls: "league_scores (teams league) week = Inr ?ls"
    using assms(1) by (rule league_scores_total)
  have s: "py_index (scores team) (week - 1) = Inr (?f team)"
    using assms(1) u by (auto simp: py_index_def)
  have "?f u \<in> set (rev (sort ?ls))"
    using u(1) by simp
  then have "?f team \<in> set (rev (sort ?ls))"
    using u(2) by simp
  then have "py_list_index (rev (sort ?ls)) (?f team)
             = Inr (length (filter (\<lambda>y. ?f team < y) (rev (sort ?ls))))"
    by (rule py_list_index_descending [OF descending_rev_sort])
  also have "length (filter (\<lambda>y. ?f team < y) (rev (sort ?ls)))
             = length (filter (\<lambda>y. ?f team < y) ?ls)"
    by (rule length_filter_rev_sort)
  also have "\<dots> = length (filter (\<lambda>t. ?f team < ?f t) (teams league))"
    by (simp add: filter_map comp_def)
  finally show ?thesis
    using ls s by (simp add: get_weekly_finish_def)
qed

text \<open>
  Claim C4.  In a week for which every team of the league has a score, the weekly
  finish of a team of the league is one more than the number of teams with a
  strictly greater score that week.
\<close>

theorem get_weekly_finish_rank:
  assumes "\<forall>t \<in> set (teams league). 1 \<le> week \<and> week \<le> int (length (scores t))"
    and "team \<in> set (teams league)"
  shows "get_weekly_finish league team week
         = Inr (1 + int (length (filter
                  (\<lambda>t. scores team ! nat (week - 1) < scores t ! nat (week - 1))
                  (teams league))))"
  using assms by (intro weekly_finish_count) auto

text \<open>For the scores 100, 90, 90, 80 the finishes are 1, 2, 2, 4.\<close>

theorem get_weekly_finish_rank_witness:
  "get_weekly_finish ex_scores_league (Team 1 [100] []) 1 = Inr 1
   \<and> get_weekly_finish ex_scores_league (Team 2 [90] []) 1 = Inr 2
   \<and> get_weekly_finish ex_scores_league (Team 3 [90] []) 1 = Inr 2
   \<and> get_weekly_finish ex_scores_league (Team 4 [80] []) 1 = Inr 4"
  using get_weekly_finish_rank [of ex_scores_league 1 "Team 1 [100] []"]
    get_weekly_finish_rank [of ex_scores_league 1 "Team 2 [90] []"]
    get_weekly_finish_rank [of ex_scores_league 1 "Team 3 [90] []"]
    get_weekly_finish_rank [of ex_scores_league 1 "Team 4 [80] []"]
  by (simp add: ex_scores_league_def)

section \<open>Properties of \<open>get_best_lineup\<close>\<close>

lemma mset_take_subset: "mset (take k xs) \<subseteq># mset xs"
proof -
  have "mset xs = mset (take k xs) + mset (drop k xs)"
    by (metis append_take_drop_id mset_append)
  then show ?thesis by simp
qed

lemma py_slice_to_take: "\<exists>k. py_slice_to xs n = take k xs"
  by (auto simp: py_slice_to_def)

lemma get_top_players_subset: "mset (get_top_players roster slot n) \<subseteq># mset roster"
proof -
  let ?el = "filter (\<lambda>p. slot \<in> set (eligibleSlots p)) roster"
  obtain k where k: "get_top_players roster slot n = take k (sort_key (\<lambda>x. - points x) ?el)"
    using py_slice_to_take unfolding get_top_players_def Let_def by blast
  have "mset (take k (sort_key (\<lambda>x. - points x) ?el)) \<subseteq># mset (sort_key (\<lambda>x. - points x) ?el)"
    by (rule mset_take_subset)
  also have "\<dots> = filter_mset (\<lambda>p. slot \<in> set (eligibleSlots p)) (mset roster)"
    by simp
  also have "\<dots> \<subseteq># mset roster"
    by simp
  finally show ?thesis using k by simp
qed

lemma get_top_players_eligible:
  "p \<in> set (get_top_players roster slot n) \<Longrightarrow> slot \<in> set (eligibleSlots p)"
proof -
  assume a: "p \<in> set (get_top_players roster slot n)"
  let ?el = "filter (\<lambda>p. slot \<in> set (eligibleSlots p)) roster"
  obtain k where k: "get_top_players roster slot n = take k (sort_key (\<lambda>x. - points x) ?el)"
    using py_slice_to_take unfolding get_top_players_def Let_def by blast
  with a have "p \<in> set (sort_key (\<lambda>x. - points x) ?el)"
    by (metis in_set_takeD)
  then show ?thesis by simp
qed

lemma mset_foldl_remove1:
  "mset ps \<subseteq># mset roster \<Longrightarrow>
   mset (foldl (\<lambda>r p. remove1 p r) roster ps) = mset roster - mset ps"
proof (induction ps arbitrary: roster)
  case Nil
  then show ?case by simp
next
  case (Cons p ps)
  from Cons.prems have "mset ps \<subseteq># mset (remove1 p roster)"
    by (simp add: insert_subset_eq_iff)
  from Cons.IH [OF this] show ?case
    by simp
qed

lemma remove_players_foldl:
  "mset ps \<subseteq># mset roster \<Longrightarrow>
   remove_players roster ps = Inr (foldl (\<lambda>r p. remove1 p r) roster ps)"
proof (induction ps arbitrary: roster)
  case Nil
  then show ?case by simp
next
  case (Cons p ps)
  from Cons.prems have "p \<in> set roster"
    by (metis list.set_intros(1) mset_subset_eqD set_mset_mset)
  moreover from Cons.prems have "mset ps \<subseteq># mset (remove1 p roster)"
    by (simp add: insert_subset_eq_iff)
  ultimately show ?case using Cons.IH by simp
qed

lemma best_lineup_loop_selections:
  "best_lineup_loop slots roster acc
   = Inr (acc @ concat (map picks (slot_selections slots roster)))"
proof (induction slots arbitrary: roster acc)
  case Nil
  then show ?case by simp
next
  case (Cons sn slots)
  obtain slot n where sn: "sn = (slot, n)" by (cases sn)
  have "remove_players roster (get_top_players roster slot n)
        = Inr (foldl (\<lambda>r p. remove1 p r) roster (get_top_players roster slot n))"
    by (rule remove_players_foldl [OF get_top_players_subset])
  then show ?case
    using Cons.IH by (simp add: sn Let_def)
qed

lemma slot_selections_slots:
  "list_all2 (\<lambda>sn e. fst e = fst sn \<and> picks e = get_top_players (fst (snd e)) (fst sn) (snd sn))
     slots (slot_selections slots roster)"
proof (induction slots arbitrary: roster)
  case Nil
  then show ?case by simp
next
  case (Cons sn slots)
  then show ?case by (cases sn) (simp add: Let_def)
qed

lemma slot_selections_eligible:
  "e \<in> set (slot_selections slots roster) \<Longrightarrow> p \<in> set (picks e) \<Longrightarrow>
   fst e \<in> set (eligibleSlots p)"
proof (induction slots arbitrary: roster)
  case Nil
  then show ?case by simp
next
  case (Cons sn slots)
  then show ?case
    by (cases sn) (auto simp: Let_def dest: get_top_players_eligible)
qed

lemma slot_selections_subset:
  "mset (concat (map picks (slot_selections slots roster))) \<subseteq># mset roster"
proof (induction slots arbitrary: roster)
  case Nil
  then show ?case by simp
next
  case (Cons sn slots)
  obtain slot n where sn: "sn = (slot, n)" by (cases sn)
  let ?ps = "get_top_players roster slot n"
  let ?r = "foldl (\<lambda>r p. remove1 p r) roster ?ps"
  have ps: "mset ?ps \<subseteq># mset roster" by (rule get_top_players_subset)
  have "mset (concat (map picks (slot_selections slots ?r))) \<subseteq># mset ?r"
    by (rule Cons.IH)
  also have "mset ?r = mset roster - mset ?ps"
    by (rule mset_foldl_remove1 [OF ps])
  finally have "mset ?ps + mset (concat (map picks (slot_selections slots ?r)))
                \<subseteq># mset ?ps + (mset roster - mset ?ps)"
    by (simp only: mset_subset_eq_mono_add_left_cancel)
  also have "\<dots> = mset roster"
    using ps by simp
  finally show ?case
    by (simp add: sn Let_def)
qed

lemma slot_selections_pool:
  "i < length (slot_selections slots roster) \<Longrightarrow>
   mset (fst (snd (slot_selections slots roster ! i)))
   = mset roster - mset (concat (map picks (take i (slot_selections slots roster))))"
proof (induction slots arbitrary: roster i)
  case Nil
  then show ?case by simp
next
  case (Cons sn slots)
  obtain slot n where sn: "sn = (slot, n)" by (cases sn)
  let ?ps = "get_top_players roster slot n"
  let ?r = "foldl (\<lambda>r p. remove1 p r) roster ?ps"
  have ps: "mset ?ps \<subseteq># mset roster" by (rule get_top_players_subset)
  show ?case
  proof (cases i)
    case 0
    then show ?thesis by (simp add: sn Let_def)
  next
    case (Suc j)
    with Cons.prems have "j < length (slot_selections slots ?r)"
      by (simp add: sn Let_def)
    from Cons.IH [OF this] have
      "mset (fst (snd (slot_selections slots ?r ! j)))
       = mset ?r - mset (concat (map picks (take j (slot_selections slots ?r))))" .
    also have "mset ?r = mset roster - mset ?ps"
      by (rule mset_foldl_remove1 [OF ps])
    finally show ?thesis
      by (simp add: sn Let_def Suc)
  qed
qed

lemma distinct_of_mset_subset:
  "mset xs \<subseteq># mset ys \<Longrightarrow> distinct ys \<Longrightarrow> distinct xs"
proof -
  assume a: "mset xs \<subseteq># mset ys" and d: "distinct ys"
  have le1: "count (mset xs) x \<le> 1" for x
  proof -
    have "count (mset xs) x \<le> count (mset ys) x"
      using a by (rule mset_subset_eq_count)
    also have "\<dots> \<le> 1"
      using d by (simp add: distinct_count_atmost_1)
    finally show ?thesis .
  qed
  have "count (mset xs) x = (if x \<in> set xs then 1 else 0)" for x
  proof (cases "x \<in> set xs")
    case True
    then have pos: "0 < count (mset xs) x" by simp
    from pos le1 [of x] have "count (mset xs) x = 1" by linarith
    with True show ?thesis by simp
  next
    case False
    then show ?thesis by (simp add: count_eq_zero_iff)
  qed
  then show ?thesis
    by (simp only: distinct_count_atmost_1) simp
qed

lemma sorted_slots_order:
  "sorted (map (\<lambda>sn. length (fst sn)) (sorted_slots league))"
proof -
  have "(\<lambda>(slot, num_players). length slot) = (\<lambda>sn::string \<times> int. length (fst sn))"
    by (simp add: fun_eq_iff split_beta)
  then show ?thesis
    unfolding sorted_slots_def by (simp add: sorted_sort_key)
qed

text \<open>
  Claim C3.  \<open>get_best_lineup\<close> goes through the starting slots in ascending order
  of the length of the slot label (labels of equal length in the order of the
  dict).  For each slot it picks \<open>get_top_players\<close> of the players still available,
  which are the lineup without the players picked for earlier slots.  Every picked
  player is eligible for the slot it was picked for, no player is picked more often
  than the lineup holds it (never twice in a lineup of distinct players), no
  \<^verbatim>\<open>remove\<close> raises, and the value returned is the sum of the points of the picked
  players.
\<close>

theorem get_best_lineup_greedy:
  "let order = sorted_slots league;
       sel = slot_selections order lineup;
       chosen = concat (map picks sel)
   in mset order = mset (starting_roster_slots league)
    \<and> sorted (map (\<lambda>sn. length (fst sn)) order)
    \<and> (\<forall>k. filter (\<lambda>sn. length (fst sn) = k) order
            = filter (\<lambda>sn. length (fst sn) = k) (starting_roster_slots league))
    \<and> list_all2 (\<lambda>sn e. fst e = fst sn
                    \<and> picks e = get_top_players (fst (snd e)) (fst sn) (snd sn)) order sel
    \<and> (\<forall>i < length sel.
          mset (fst (snd (sel ! i))) = mset lineup - mset (concat (map picks (take i sel))))
    \<and> (\<forall>e \<in> set sel. \<forall>p \<in> set (picks e). fst e \<in> set (eligibleSlots p))
    \<and> mset chosen \<subseteq># mset lineup
    \<and> (distinct lineup \<longrightarrow> distinct chosen)
    \<and> best_lineup league lineup = Inr chosen
    \<and> get_best_lineup league lineup = Inr (sum_list (map points chosen))"
proof -
  let ?order = "sorted_slots league"
  let ?sel = "slot_selections ?order lineup"
  let ?chosen = "concat (map picks ?sel)"
  have key: "(\<lambda>(slot, num_players). length slot) = (\<lambda>sn::string \<times> int. length (fst sn))"
    by (simp add: fun_eq_iff split_beta)
  have 1: "mset ?order = mset (starting_roster_slots league)"
    by (simp add: sorted_slots_def)
  have 2: "sorted (map (\<lambda>sn. length (fst sn)) ?order)"
    by (rule sorted_slots_order)
  have 3: "filter (\<lambda>sn. length (fst sn) = k) ?order
           = filter (\<lambda>sn. length (fst sn) = k) (starting_roster_slots league)" for k
    unfolding sorted_slots_def key by (rule sort_key_stable)
  have 4: "list_all2 (\<lambda>sn e. fst e = fst sn
              \<and> picks e = get_top_players (fst (snd e)) (fst sn) (snd sn)) ?order ?sel"
    by (rule slot_selections_slots)
  have 5: "\<forall>i < length ?sel.
          mset (fst (snd (?sel ! i))) = mset lineup - mset (concat (map picks (take i ?sel)))"
    using slot_selections_pool by blast
  have 6: "\<forall>e \<in> set ?sel. \<forall>p \<in> set (picks e). fst e \<in> set (eligibleSlots p)"
    using slot_selections_eligible by blast
  have 7: "mset ?chosen \<subseteq># mset lineup"
    by (rule slot_selections_subset)
  have 8: "distinct lineup \<longrightarrow> distinct ?chosen"
    using distinct_of_mset_subset [OF 7] by blast
  have 9: "best_lineup league lineup = Inr ?chosen"
    by (simp add: best_lineup_def best_lineup_loop_selections)
  have 10: "get_best_lineup league lineup = Inr (sum_list (map points ?chosen))"
    by (simp add: get_best_lineup_def 9)
  from 1 2 3 4 5 6 7 8 9 10 show ?thesis
    unfolding Let_def by blast
qed

lemma ex_flex_sel:
  "slot_selections (sorted_slots ex_flex_league) ex_flex_lineup
   = [(''QB'', ex_flex_lineup, [ex_flex_lineup ! 1]),
      (''RB'', remove1 (ex_flex_lineup ! 1) ex_flex_lineup, [ex_flex_lineup ! 3]),
      (''RB/WR/TE'', [ex_flex_lineup ! 0, ex_flex_lineup ! 2], [ex_flex_lineup ! 0])]"
  by (simp add: sorted_slots_def ex_flex_league_def ex_flex_lineup_def get_top_players_def
      py_slice_to_def Let_def)

theorem get_best_lineup_greedy_witness:
  "best_lineup ex_flex_league ex_flex_lineup
     = Inr [ex_flex_lineup ! 1, ex_flex_lineup ! 3, ex_flex_lineup ! 0]
   \<and> get_best_lineup ex_flex_league ex_flex_lineup = Inr 53
   \<and> distinct [ex_flex_lineup ! 1, ex_flex_lineup ! 3, ex_flex_lineup ! 0]"
proof -
  have d: "distinct ex_flex_lineup"
    by (simp add: ex_flex_lineup_def)
  have p: "sum_list (map points [ex_flex_lineup ! 1, ex_flex_lineup ! 3, ex_flex_lineup ! 0]) = 53"
    by (simp add: ex_flex_lineup_def)
  from get_best_lineup_greedy [of ex_flex_league ex_flex_lineup] d p show ?thesis
    unfolding Let_def ex_flex_sel by simp
qed

section \<open>Properties of \<open>get_best_trio\<close>\<close>

lemma top1_none:
  assumes "filter (\<lambda>p. slot \<in> set (eligibleSlots p)) lineup = []"
  shows "py_index (get_top_players lineup slot 1) 0 = Inl IndexError"
  using assms by (simp add: get_top_players_def py_slice_to_def py_index_def)

lemma top1_some:
  assumes "filter (\<lambda>p. slot \<in> set (eligibleSlots p)) lineup \<noteq> []"
  shows "\<exists>p. py_index (get_top_players lineup slot 1) 0 = Inr p
             \<and> points p = Max (points ` {p \<in> set lineup. slot \<in> set (eligibleSlots p)})"
proof -
  let ?el = "filter (\<lambda>p. slot \<in> set (eligibleSlots p)) lineup"
  let ?ys = "sort_key (\<lambda>x. - points x) ?el"
  from assms have ne: "?ys \<noteq> []"
    by (metis length_0_conv length_sort)
  then obtain y ys where ys: "?ys = y # ys"
    by (cases ?ys) auto
  have "sorted_wrt (\<lambda>a b. points b \<le> points a) ?ys"
    by (rule sort_key_neg_descending)
  with ys have ge: "\<forall>q \<in> set ?ys. points q \<le> points y"
    by auto
  have sets: "set ?ys = {p \<in> set lineup. slot \<in> set (eligibleSlots p)}"
    by auto
  have "y \<in> set ?ys" using ys by simp
  with ge sets have "Max (points ` {p \<in> set lineup. slot \<in> set (eligibleSlots p)}) = points y"
    by (intro Max_eqI) auto
  moreover have "py_index (get_top_players lineup slot 1) 0 = Inr y"
    using ys by (simp add: get_top_players_def py_slice_to_def py_index_def)
  ultimately show ?thesis by simp
qed

text \<open>
  \<open>py_round2 x\<close> is a whole number of hundredths at distance at most half a hundredth
  from \<open>x\<close>, and an even number of hundredths when \<open>x\<close> lies halfway between two.
\<close>

lemma py_round2_hundredth:
  "\<exists>k. py_round2 x = of_int k / 100
       \<and> \<bar>of_int k / 100 - x\<bar> \<le> 1 / 200
       \<and> (\<bar>of_int k / 100 - x\<bar> = 1 / 200 \<longrightarrow> even k)"
proof -
  let ?y = "x * 100"
  let ?f = "\<lfloor>?y\<rfloor>"
  have lo: "of_int ?f \<le> ?y" and hi: "?y < of_int ?f + 1"
    by linarith+
  consider (down) "?y - of_int ?f < 1 / 2"
    | (up) "1 / 2 < ?y - of_int ?f"
    | (tie) "?y - of_int ?f = 1 / 2"
    by linarith
  then show ?thesis
  proof cases
    case down
    then have "py_round2 x = of_int ?f / 100"
      by (simp add: py_round2_def Let_def)
    moreover have "\<bar>of_int ?f / 100 - x\<bar> < 1 / 200"
      using lo down by (simp add: abs_less_iff field_simps)
    ultimately show ?thesis
      by (intro exI [of _ ?f]) simp
  next
    case up
    then have "py_round2 x = of_int (?f + 1) / 100"
      by (simp add: py_round2_def Let_def)
    moreover have "\<bar>of_int (?f + 1) / 100 - x\<bar> < 1 / 200"
      using hi up by (simp add: abs_less_iff field_simps)
    ultimately show ?thesis
      by (intro exI [of _ "?f + 1"]) simp
  next
    case tie
    have d0: "\<bar>of_int ?f / 100 - x\<bar> = 1 / 200"
      using tie by (simp add: abs_if field_simps)
    have d1: "\<bar>of_int (?f + 1) / 100 - x\<bar> = 1 / 200"
      using tie by (simp add: abs_if field_simps)
    show ?thesis
    proof (cases "even ?f")
      case True
      with tie have "py_round2 x = of_int ?f / 100"
        by (simp add: py_round2_def Let_def)
      with d0 True show ?thesis
        by (intro exI [of _ ?f]) simp
    next
      case False
      with tie have "py_round2 x = of_int (?f + 1) / 100"
        by (simp add: py_round2_def Let_def)
      moreover from False have "even (?f + 1)" by simp
      ultimately show ?thesis
        using d1 by (intro exI [of _ "?f + 1"]) simp
    qed
  qed
qed

text \<open>
  Claim C7.  When the lineup has a player eligible for each of QB, RB, WR and TE,
  \<open>get_best_trio\<close> returns the sum \<open>t\<close> (in doubles) of the highest QB points, the
  highest RB points and the larger of the highest WR and the highest TE points,
  rounded to two decimals: a whole number of hundredths at distance at most half a
  hundredth from \<open>t\<close>, the even one when \<open>t\<close> is halfway.  When one of the four has
  no eligible player the call raises \<^verbatim>\<open>IndexError\<close>.
\<close>

theorem get_best_trio_spec:
  "if \<forall>slot \<in> {''QB'', ''RB'', ''WR'', ''TE''}. \<exists>p \<in> set lineup. slot \<in> set (eligibleSlots p)
   then let t = float_add
                  (float_add
                     (Max (points ` {p \<in> set lineup. ''QB'' \<in> set (eligibleSlots p)}))
                     (Max (points ` {p \<in> set lineup. ''RB'' \<in> set (eligibleSlots p)})))
                  (max (Max (points ` {p \<in> set lineup. ''WR'' \<in> set (eligibleSlots p)}))
                       (Max (points ` {p \<in> set lineup. ''TE'' \<in> set (eligibleSlots p)})))
        in \<exists>k. get_best_trio float_add league lineup = Inr (of_int k / 100)
               \<and> \<bar>of_int k / 100 - t\<bar> \<le> 1 / 200
               \<and> (\<bar>of_int k / 100 - t\<bar> = 1 / 200 \<longrightarrow> even k)
   else get_best_trio float_add league lineup = Inl IndexError"
proof -
  have none: "py_index (get_top_players lineup slot 1) 0 = Inl IndexError"
    if "\<not> (\<exists>p \<in> set lineup. slot \<in> set (eligibleSlots p))" for slot
    using that by (intro top1_none) (simp add: filter_empty_conv)
  have some: "\<exists>q. py_index (get_top_players lineup slot 1) 0 = Inr q
             \<and> points q = Max (points ` {p \<in> set lineup. slot \<in> set (eligibleSlots p)})"
    if "\<exists>p \<in> set lineup. slot \<in> set (eligibleSlots p)" for slot
    using that by (intro top1_some) (simp add: filter_empty_conv)
  show ?thesis
  proof (cases "\<forall>slot \<in> {''QB'', ''RB'', ''WR'', ''TE''}. \<exists>p \<in> set lineup. slot \<in> set (eligibleSlots p)")
    case True
    let ?t = "float_add
                  (float_add
                     (Max (points ` {p \<in> set lineup. ''QB'' \<in> set (eligibleSlots p)}))
                     (Max (points ` {p \<in> set lineup. ''RB'' \<in> set (eligibleSlots p)})))
                  (max (Max (points ` {p \<in> set lineup. ''WR'' \<in> set (eligibleSlots p)}))
                       (Max (points ` {p \<in> set lineup. ''TE'' \<in> set (eligibleSlots p)})))"
    from True obtain qb rb wr te where
      "py_index (get_top_players lineup ''QB'' 1) 0 = Inr qb"
      "points qb = Max (points ` {p \<in> set lineup. ''QB'' \<in> set (eligibleSlots p)})"
      "py_index (get_top_players lineup ''RB'' 1) 0 = Inr rb"
      "points rb = Max (points ` {p \<in> set lineup. ''RB'' \<in> set (eligibleSlots p)})"
      "py_index (get_top_players lineup ''WR'' 1) 0 = Inr wr"
      "points wr = Max (points ` {p \<in> set lineup. ''WR'' \<in> set (eligibleSlots p)})"
      "py_index (get_top_players lineup ''TE'' 1) 0 = Inr te"
      "points te = Max (points ` {p \<in> set lineup. ''TE'' \<in> set (eligibleSlots p)})"
      using some [of "''QB''"] some [of "''RB''"] some [of "''WR''"] some [of "''TE''"]
      by auto
    then have run: "get_best_trio float_add league lineup = Inr (py_round2 ?t)"
      by (simp add: get_best_trio_def)
    obtain k where "py_round2 ?t = of_int k / 100"
      "\<bar>of_int k / 100 - ?t\<bar> \<le> 1 / 200"
      "\<bar>of_int k / 100 - ?t\<bar> = 1 / 200 \<longrightarrow> even k"
      using py_round2_hundredth [of ?t] by blast
    with run have ex: "\<exists>k. get_best_trio float_add league lineup = Inr (of_int k / 100)
               \<and> \<bar>of_int k / 100 - ?t\<bar> \<le> 1 / 200
               \<and> (\<bar>of_int k / 100 - ?t\<bar> = 1 / 200 \<longrightarrow> even k)"
      by auto
    show ?thesis
      unfolding Let_def if_P [OF True] by (rule ex)
  next
    case False
    then consider
        "\<not> (\<exists>p \<in> set lineup. ''QB'' \<in> set (eligibleSlots p))"
      | "\<not> (\<exists>p \<in> set lineup. ''RB'' \<in> set (eligibleSlots p))"
      | "\<not> (\<exists>p \<in> set lineup. ''WR'' \<in> set (eligibleSlots p))"
      | "\<not> (\<exists>p \<in> set lineup. ''TE'' \<in> set (eligibleSlots p))"
      by auto
    then have "get_best_trio float_add league lineup = Inl IndexError"
    proof cases
      case 1
      from none [OF this] show ?thesis by (simp add: get_best_trio_def)
    next
      case 2
      from none [OF this] show ?thesis
        by (cases "py_index (get_top_players lineup ''QB'' 1) 0")
           (auto simp: get_best_trio_def py_index_def split: if_splits)
    next
      case 3
      from none [OF this] show ?thesis
        by (cases "py_index (get_top_players lineup ''QB'' 1) 0";
            cases "py_index (get_top_players lineup ''RB'' 1) 0")
           (auto simp: get_best_trio_def py_index_def split: if_splits)
    next
      case 4
      from none [OF this] show ?thesis
        by (cases "py_index (get_top_players lineup ''QB'' 1) 0";
            cases "py_index (get_top_players lineup ''RB'' 1) 0";
            cases "py_index (get_top_players lineup ''WR'' 1) 0")
           (auto simp: get_best_trio_def py_index_def split: if_splits)
    qed
    with False show ?thesis by simp
  qed
qed

text \<open>
  In \<open>ex_trio_lineup\<close> the highest points are 20.125, 15, 12 and 14.5; the sums
  35.125 and 49.625 are doubles, so the addition of doubles is the exact one there.
  49.625 is halfway between 49.62 and 49.63 and the result is 49.62.
\<close>

theorem get_best_trio_spec_witness:
  "get_best_trio (+) \<lparr>teams = [], starting_roster_slots = []\<rparr> ex_trio_lineup = Inr 49.62
   \<and> \<bar>49.62 -
        (Max (points ` {p \<in> set ex_trio_lineup. ''QB'' \<in> set (eligibleSlots p)})
         + Max (points ` {p \<in> set ex_trio_lineup. ''RB'' \<in> set (eligibleSlots p)})
         + max (Max (points ` {p \<in> set ex_trio_lineup. ''WR'' \<in> set (eligibleSlots p)}))
               (Max (points ` {p \<in> set ex_trio_lineup. ''TE'' \<in> set (eligibleSlots p)})))\<bar>
       \<le> 1 / 200
   \<and> get_best_trio (+) \<lparr>teams = [], starting_roster_slots = []\<rparr> (butlast ex_trio_lineup)
       = Inl IndexError"
proof -
  let ?L = "\<lparr>teams = [], starting_roster_slots = []\<rparr>"
  let ?t = "Max (points ` {p \<in> set ex_trio_lineup. ''QB'' \<in> set (eligibleSlots p)})
         + Max (points ` {p \<in> set ex_trio_lineup. ''RB'' \<in> set (eligibleSlots p)})
         + max (Max (points ` {p \<in> set ex_trio_lineup. ''WR'' \<in> set (eligibleSlots p)}))
               (Max (points ` {p \<in> set ex_trio_lineup. ''TE'' \<in> set (eligibleSlots p)}))"
  have c: "\<forall>slot \<in> {''QB'', ''RB'', ''WR'', ''TE''}.
             \<exists>p \<in> set ex_trio_lineup. slot \<in> set (eligibleSlots p)"
    by (simp add: ex_trio_lineup_def)
  have e: "get_best_trio (+) ?L ex_trio_lineup = Inr 49.62"
    by (simp add: get_best_trio_def get_top_players_def py_slice_to_def py_index_def
        ex_trio_lineup_def py_round2_def)
  have n: "\<not> (\<forall>slot \<in> {''QB'', ''RB'', ''WR'', ''TE''}.
             \<exists>p \<in> set (butlast ex_trio_lineup). slot \<in> set (eligibleSlots p))"
    by (simp add: ex_trio_lineup_def)
  from get_best_trio_spec [of ex_trio_lineup "(+)" ?L, unfolded Let_def if_P [OF c]]
  obtain k where "get_best_trio (+) ?L ex_trio_lineup = Inr (of_int k / 100)"
    and "\<bar>of_int k / 100 - ?t\<bar> \<le> 1 / 200"
    by blast
  with e have 1: "\<bar>49.62 - ?t\<bar> \<le> 1 / 200"
    by simp
  from get_best_trio_spec [of "butlast ex_trio_lineup" "(+)" ?L] n
  have 2: "get_best_trio (+) ?L (butlast ex_trio_lineup) = Inl IndexError"
    by (simp only: if_False)
  from e 1 2 show ?thesis by blast
qed

section \<open>Properties of the luck index\<close>

lemma week_slice:
  assumes "1 \<le> week" and "week \<le> int (length xs)"
  shows "py_slice_to xs week = take (nat week) xs"
    and "py_slice_to xs week \<noteq> []"
    and "py_index xs (week - 1) = Inr (xs ! nat (week - 1))"
    and "xs ! nat (week - 1) \<in> set (py_slice_to xs week)"
proof -
  show 1: "py_slice_to xs week = take (nat week) xs"
    using assms by (simp add: py_slice_to_def)
  show "py_slice_to xs week \<noteq> []"
    using assms unfolding 1 by auto
  show "py_index xs (week - 1) = Inr (xs ! nat (week - 1))"
    using assms by (simp add: py_index_def)
  have "nat (week - 1) < nat week" "nat week \<le> length xs"
    using assms by auto
  then have "take (nat week) xs ! nat (week - 1) = xs ! nat (week - 1)"
        and "nat (week - 1) < length (take (nat week) xs)"
    by auto
  then show "xs ! nat (week - 1) \<in> set (py_slice_to xs week)"
    unfolding 1 by (metis nth_mem)
qed

lemma schedule_luck_total:
  "num_teams \<noteq> 1 \<Longrightarrow> \<exists>s. schedule_luck rank opp_rank num_teams = Inr s"
  by (simp add: schedule_luck_def py_truediv_def)

text \<open>On recorded inputs no step of \<open>get_weekly_luck_index\<close> raises.\<close>

lemma weekly_luck_index_run:
  assumes wf: "week_recorded league team week"
  defines "opp \<equiv> schedule team ! nat (week - 1)"
  shows "\<exists>rank opp_rank s.
           get_weekly_finish league team week = Inr rank
         \<and> get_weekly_finish league opp week = Inr opp_rank
         \<and> schedule_luck rank opp_rank (int (length (teams league))) = Inr s
         \<and> get_weekly_luck_index np league team week
           = Inr (np_div
               (opp_adjust
                  (team_adjust (Finite s) (scores team ! nat (week - 1))
                     (np_mean np (py_slice_to (scores team) week))
                     (np_std np (py_slice_to (scores team) week)))
                  (np_std np (py_slice_to (scores team) week))
                  (scores opp ! nat (week - 1))
                  (np_mean np (py_slice_to (scores opp) week))
                  (np_std np (py_slice_to (scores opp) week)))
               (Finite 10))"
proof -
  from wf have w1: "1 \<le> week"
    and all: "\<forall>t \<in> set (teams league). 1 \<le> week \<and> week \<le> int (length (scores t))"
    and tin: "team \<in> set (teams league)"
    and sch: "week \<le> int (length (schedule team))"
    and oin: "\<exists>t \<in> set (teams league). scores t = scores opp"
    and n2: "int (length (teams league)) \<noteq> 1"
    by (auto simp: week_recorded_def opp_def)
  from tin have tin': "\<exists>t \<in> set (teams league). scores t = scores team"
    by blast
  from all oin have wo: "week \<le> int (length (scores opp))"
    by metis
  obtain rank where r: "get_weekly_finish league team week = Inr rank"
    using weekly_finish_count [OF all tin'] by blast
  obtain opp_rank where orank: "get_weekly_finish league opp week = Inr opp_rank"
    using weekly_finish_count [OF all oin] by blast
  obtain s where s: "schedule_luck rank opp_rank (int (length (teams league))) = Inr s"
    using schedule_luck_total [OF n2] by blast
  have o: "py_index (schedule team) (week - 1) = Inr opp"
    unfolding opp_def using w1 sch by (rule week_slice(3))
  have ts: "py_index (scores team) (week - 1) = Inr (scores team ! nat (week - 1))"
    using w1 all tin by (intro week_slice(3)) auto
  have os: "py_index (scores opp) (week - 1) = Inr (scores opp ! nat (week - 1))"
    using w1 wo by (rule week_slice(3))
  have "get_weekly_luck_index np league team week
           = Inr (np_div
               (opp_adjust
                  (team_adjust (Finite s) (scores team ! nat (week - 1))
                     (np_mean np (py_slice_to (scores team) week))
                     (np_std np (py_slice_to (scores team) week)))
                  (np_std np (py_slice_to (scores team) week))
                  (scores opp ! nat (week - 1))
                  (np_mean np (py_slice_to (scores opp) week))
                  (np_std np (py_slice_to (scores opp) week)))
               (Finite 10))"
    by (simp add: get_weekly_luck_index_def o r orank s ts os Let_def
        w_sched_def w_team_def w_opp_def)
  with r orank s show ?thesis by blast
qed




lemma opp_adjust_apply:
  "team_std \<noteq> Finite 0 \<Longrightarrow>
   opp_adjust l team_std x a sd
   = np_sub l (np_mul (np_div (np_div (np_sub (Finite x) a) sd) (Finite 2)) (Finite w_opp))"
  by (simp add: opp_adjust_def Let_def)

text \<open>A division by zero is not finite, and what is not finite stays so.\<close>

lemma np_div_zero: "\<not> np_isfinite (np_div a (Finite 0))"
  by (cases a) simp_all

lemma np_div_nonfinite: "\<not> np_isfinite a \<Longrightarrow> \<not> np_isfinite (np_div a (Finite c))"
  by (cases a) simp_all

lemma np_mul_nonfinite: "\<not> np_isfinite a \<Longrightarrow> \<not> np_isfinite (np_mul a (Finite c))"
  by (cases a) simp_all

lemma np_sub_nonfinite: "\<not> np_isfinite b \<Longrightarrow> \<not> np_isfinite (np_sub a b)"
  by (cases a; cases b) (simp_all add: np_sub_def)

text \<open>
  Claim C5, as the code has it.  When the team and its opponent have the same weekly
  finish, the schedule term is \<open>- w_sched / 2 * (num_teams - rank - 1) / (num_teams - 1)\<close>
  if \<open>rank < num_teams / 2\<close> (the tied opponent is not counted among the teams
  below), and \<open>w_sched / 2 * (rank - 1) / (num_teams - 1)\<close>, half the term of a win,
  otherwise.
\<close>

theorem schedule_luck_tie:
  assumes "num_teams \<noteq> 1"
  shows "schedule_luck rank rank num_teams
         = Inr (if real_of_int rank < real_of_int num_teams / 2
                then - (w_sched / 2) * real_of_int (num_teams - rank - 1)
                       / real_of_int (num_teams - 1)
                else w_sched / 2 * real_of_int (rank - 1) / real_of_int (num_teams - 1))"
  using assms by (simp add: schedule_luck_def py_truediv_def)

theorem schedule_luck_tie_witness:
  "schedule_luck 1 1 4 = Inr (- 7 / 3) \<and> schedule_luck 3 3 4 = Inr (7 / 3)"
  using schedule_luck_tie [of 4 1] schedule_luck_tie [of 4 3]
  by (simp add: w_sched_def)

text \<open>
  Two teams tied at rank 1 of 4: the schedule term is \<open>- 7 / 3\<close>, not half the term
  of a loss, \<open>- 7 / 2 * (4 - 1) / (4 - 1)\<close>.
\<close>

theorem schedule_luck_tie_counterexample:
  "get_weekly_finish ex_tie_league (Team 1 [100] [Team 2 [100] []]) 1 = Inr 1
   \<and> get_weekly_finish ex_tie_league (Team 2 [100] []) 1 = Inr 1
   \<and> schedule_luck 1 1 (int (length (teams ex_tie_league))) = Inr (- 7 / 3)
   \<and> schedule_luck 1 1 (int (length (teams ex_tie_league)))
       \<noteq> Inr (- (w_sched / 2) * real_of_int (4 - 1) / real_of_int (4 - 1))
   \<and> get_weekly_luck_index ex_numpy ex_tie_league (Team 1 [100] [Team 2 [100] []]) 1
       = Inr (Finite (- 7 / 30))"
  by (simp add: ex_tie_league_def get_weekly_finish_def py_index_def schedule_luck_def
      py_truediv_def w_sched_def w_team_def w_opp_def get_weekly_luck_index_def
      py_slice_to_def ex_numpy_def ex_numpy_table_def team_adjust_def opp_adjust_def)



text \<open>
  Claim C10.  On recorded inputs, when the standard deviation \<^verbatim>\<open>np.std\<close> returns for
  the team's scores is not zero and the one it returns for the opponent's scores is
  zero, the opponent's z-score is a division by zero and the index returned is not
  finite (\<^verbatim>\<open>nan\<close> or an infinity); no exception is raised.
\<close>

theorem weekly_luck_index_opp_std_zero:
  assumes "week_recorded league team week"
    and "np_std np (py_slice_to (scores team) week) \<noteq> Finite 0"
    and "np_std np (py_slice_to (scores (schedule team ! nat (week - 1))) week) = Finite 0"
  shows "\<exists>v. get_weekly_luck_index np league team week = Inr v \<and> \<not> np_isfinite v"
proof -
  let ?opp = "schedule team ! nat (week - 1)"
  let ?ts = "py_slice_to (scores team) week"
  let ?os = "py_slice_to (scores ?opp) week"
  let ?x = "scores team ! nat (week - 1)"
  let ?y = "scores ?opp ! nat (week - 1)"
  from weekly_luck_index_run [OF assms(1), of np] obtain s where
    run: "get_weekly_luck_index np league team week
           = Inr (np_div
               (opp_adjust
                  (team_adjust (Finite s) ?x (np_mean np ?ts) (np_std np ?ts))
                  (np_std np ?ts) ?y (np_mean np ?os) (np_std np ?os))
               (Finite 10))"
    by blast
  let ?l = "team_adjust (Finite s) ?x (np_mean np ?ts) (np_std np ?ts)"
  let ?z = "np_div (np_sub (Finite ?y) (np_mean np ?os)) (Finite 0)"
  have "\<not> np_isfinite ?z"
    by (rule np_div_zero)
  then have "\<not> np_isfinite (np_div ?z (Finite 2))"
    by (rule np_div_nonfinite)
  then have "\<not> np_isfinite (np_mul (np_div ?z (Finite 2)) (Finite w_opp))"
    by (rule np_mul_nonfinite)
  then have "\<not> np_isfinite (np_sub ?l (np_mul (np_div ?z (Finite 2)) (Finite w_opp)))"
    by (rule np_sub_nonfinite)
  then have "\<not> np_isfinite
      (np_div (np_sub ?l (np_mul (np_div ?z (Finite 2)) (Finite w_opp))) (Finite 10))"
    by (rule np_div_nonfinite)
  then show ?thesis
    unfolding run opp_adjust_apply [OF assms(2)] assms(3) by blast
qed

text \<open>
  In week 2 of \<open>ex_luck_league\<close> team 2 has the scores 90, 110 and its opponent 100,
  100: the opponent's z-score is \<open>0 / 0\<close> and the index is \<^verbatim>\<open>nan\<close>.
\<close>

theorem weekly_luck_index_opp_std_zero_witness:
  "\<exists>v. get_weekly_luck_index ex_numpy ex_luck_league
          (Team 2 [90, 110] [Team 1 [100, 100] [], Team 1 [100, 100] []]) 2 = Inr v
       \<and> \<not> np_isfinite v \<and> v = NaN"
proof -
  let ?B = "Team 2 [90, 110] [Team 1 [100, 100] [], Team 1 [100, 100] []]"
  have wf: "week_recorded ex_luck_league ?B 2"
    by (simp add: week_recorded_def ex_luck_league_def)
  have t: "np_std ex_numpy (py_slice_to (scores ?B) 2) \<noteq> Finite 0"
    by (simp add: py_slice_to_def ex_numpy_def ex_numpy_table_def)
  have o: "np_std ex_numpy (py_slice_to (scores (schedule ?B ! nat (2 - 1))) 2) = Finite 0"
    by (simp add: py_slice_to_def ex_numpy_def ex_numpy_table_def)
  have e: "get_weekly_luck_index ex_numpy ex_luck_league ?B 2 = Inr NaN"
    by (simp add: ex_luck_league_def get_weekly_luck_index_def get_weekly_finish_def
      py_index_def schedule_luck_def py_truediv_def w_sched_def w_team_def w_opp_def
      py_slice_to_def ex_numpy_def ex_numpy_table_def team_adjust_def opp_adjust_def
      np_sub_def)
  from weekly_luck_index_opp_std_zero [OF wf t o] e show ?thesis
    by auto
qed

lemma ex_season_week1:
  "get_weekly_luck_index ex_numpy ex_season_league
     (Team 1 [100, 100] [Team 2 [90, 90] [], Team 3 [110, 110] []]) 1 = Inr (Finite (7 / 30))"
  by (simp add: ex_season_league_def get_weekly_luck_index_def get_weekly_finish_def
      py_index_def schedule_luck_def py_truediv_def w_sched_def w_team_def w_opp_def
      py_slice_to_def ex_numpy_def ex_numpy_table_def team_adjust_def opp_adjust_def)

lemma ex_season_week2:
  "get_weekly_luck_index ex_numpy ex_season_league
     (Team 1 [100, 100] [Team 2 [90, 90] [], Team 3 [110, 110] []]) 2 = Inr (Finite (- 7 / 15))"
  "get_weekly_luck_index ex_numpy ex_season_league
     (Team 2 [90, 90] [Team 1 [100, 100] [], Team 4 [80, 80] []]) 2 = Inr (Finite (7 / 15))"
  "get_weekly_luck_index ex_numpy ex_season_league
     (Team 3 [110, 110] [Team 4 [80, 80] [], Team 1 [100, 100] []]) 2 = Inr (Finite 0)"
  "get_weekly_luck_index ex_numpy ex_season_league
     (Team 4 [80, 80] [Team 3 [110, 110] [], Team 2 [90, 90] []]) 2 = Inr (Finite 0)"
  by (simp_all add: ex_season_league_def get_weekly_luck_index_def get_weekly_finish_def
      py_index_def schedule_luck_def py_truediv_def w_sched_def w_team_def w_opp_def
      py_slice_to_def ex_numpy_def ex_numpy_table_def team_adjust_def opp_adjust_def)

text \<open>
  Claim C2 asks for the sum of the weekly indices of weeks 1 to \<open>week\<close>.  The loop
  adds the index of the last week once per week: for team 1 of \<open>ex_season_league\<close>
  the indices of weeks 1 and 2 are \<open>7 / 30\<close> and \<open>- 7 / 15\<close>, with sum \<open>- 7 / 30\<close>,
  and \<open>get_season_luck_indices\<close> returns \<open>- 14 / 15\<close>.
\<close>

theorem season_luck_repeats_last_week:
  "(\<exists>m. get_season_luck_indices ex_numpy ex_season_league 2 = Inr m
         \<and> m 1 = Some (Finite (- 14 / 15)))
   \<and> get_weekly_luck_index ex_numpy ex_season_league
        (Team 1 [100, 100] [Team 2 [90, 90] [], Team 3 [110, 110] []]) 1 = Inr (Finite (7 / 30))
   \<and> get_weekly_luck_index ex_numpy ex_season_league
        (Team 1 [100, 100] [Team 2 [90, 90] [], Team 3 [110, 110] []]) 2 = Inr (Finite (- 7 / 15))
   \<and> np_add (Finite (7 / 30)) (Finite (- 7 / 15)) = Finite (- 7 / 30)"
proof -
  have t: "teams ex_season_league =
      [Team 1 [100, 100] [Team 2 [90, 90] [], Team 3 [110, 110] []],
       Team 2 [90, 90] [Team 1 [100, 100] [], Team 4 [80, 80] []],
       Team 3 [110, 110] [Team 4 [80, 80] [], Team 1 [100, 100] []],
       Team 4 [80, 80] [Team 3 [110, 110] [], Team 2 [90, 90] []]]"
    by (simp add: ex_season_league_def)
  have u: "[1..2::int] = [1, 2]"
    by (simp add: upto.simps)
  have "\<exists>m. get_season_luck_indices ex_numpy ex_season_league 2 = Inr m
         \<and> m 1 = Some (Finite (- 14 / 15))"
    by (simp add: get_season_luck_indices_def t u ex_season_week2 del: One_nat_def)
  with ex_season_week1 ex_season_week2(1) show ?thesis by simp
qed

section \<open>Properties of \<open>get_lineup_efficiency\<close>\<close>

text \<open>
  Claim C9, as the code has it.  The division is not guarded: when the best-lineup
  total is 0 the efficiency is \<^verbatim>\<open>nan\<close> if the real score is 0 as well, and an
  infinity with the sign of the real score otherwise.
\<close>

theorem get_lineup_efficiency_zero_denominator:
  assumes "get_best_lineup league lineup = Inr 0"
  shows "get_lineup_efficiency league lineup
         = Inr (let real_score = sum_list (map points
                      (filter (\<lambda>player. slot_position player \<notin> {''BE'', ''IR''}) lineup))
                in if real_score = 0 then NaN else if 0 < real_score then PosInf else NegInf)"
  using assms by (simp add: get_lineup_efficiency_def Let_def)

theorem get_lineup_efficiency_zero_denominator_witness:
  "get_lineup_efficiency ex_two_flex_league [] = Inr NaN"
proof -
  have "get_best_lineup ex_two_flex_league [] = Inr 0"
    by (simp add: get_best_lineup_def best_lineup_def sorted_slots_def ex_two_flex_league_def
        get_top_players_def py_slice_to_def Let_def)
  from get_lineup_efficiency_zero_denominator [OF this] show ?thesis by simp
qed

text \<open>
  The empty lineup and a zero-scoring lineup give \<^verbatim>\<open>nan\<close>; a starter who scored but
  fits no required slot gives \<^verbatim>\<open>inf\<close>.
\<close>

theorem get_lineup_efficiency_counterexample:
  "get_best_lineup ex_two_flex_league [] = Inr 0
   \<and> get_lineup_efficiency ex_two_flex_league [] = Inr NaN
   \<and> get_best_lineup ex_two_flex_league [ex_rb\<lparr>points := 0\<rparr>] = Inr 0
   \<and> get_lineup_efficiency ex_two_flex_league [ex_rb\<lparr>points := 0\<rparr>] = Inr NaN
   \<and> get_best_lineup \<lparr>teams = [], starting_roster_slots = [(''QB'', 1)]\<rparr> [ex_wr] = Inr 0
   \<and> get_lineup_efficiency \<lparr>teams = [], starting_roster_slots = [(''QB'', 1)]\<rparr> [ex_wr]
       = Inr PosInf"
  by (simp add: get_lineup_efficiency_def get_best_lineup_def best_lineup_def sorted_slots_def
      ex_two_flex_league_def get_top_players_def py_slice_to_def Let_def ex_rb_def ex_wr_def)

text \<open>
  Claim C1 asks that no legal assignment scores more than \<open>get_best_lineup\<close>.  With
  the slots RB/WR and WR/TE, a receiver with 20 points and a running back with 5,
  the loop gives the receiver to RB/WR and finds nobody for WR/TE: it returns 20,
  the legal assignment of the running back to RB/WR and the receiver to WR/TE scores
  25, and the efficiency of that lineup is \<open>5 / 4\<close>.  With the slots of
  \<open>ex_test_league\<close>, a player eligible for QB and TE with 20 points and a
  quarterback with 10, the loop returns 20 and a legal assignment scores 30.
\<close>

theorem get_best_lineup_not_optimal:
  "get_best_lineup ex_two_flex_league [ex_wr, ex_rb] = Inr 20
   \<and> legal_assignment (starting_roster_slots ex_two_flex_league) [ex_wr, ex_rb]
        [(''RB/WR'', ex_rb), (''WR/TE'', ex_wr)]
   \<and> sum_list (map (\<lambda>(slot, p). points p) [(''RB/WR'', ex_rb), (''WR/TE'', ex_wr)]) = 25
   \<and> get_lineup_efficiency ex_two_flex_league
        [ex_wr\<lparr>slot_position := ''WR/TE''\<rparr>, ex_rb\<lparr>slot_position := ''RB/WR''\<rparr>]
       = Inr (Finite (5 / 4))
   \<and> get_best_lineup ex_test_league [ex_qb_te, ex_qb] = Inr 20
   \<and> legal_assignment (starting_roster_slots ex_test_league) [ex_qb_te, ex_qb]
        [(''QB'', ex_qb), (''TE'', ex_qb_te)]
   \<and> sum_list (map (\<lambda>(slot, p). points p) [(''QB'', ex_qb), (''TE'', ex_qb_te)]) = 30"
  by (simp add: get_lineup_efficiency_def get_best_lineup_def best_lineup_def sorted_slots_def
      ex_two_flex_league_def get_top_players_def py_slice_to_def Let_def ex_rb_def ex_wr_def
      legal_assignment_def ex_test_league_def ex_qb_te_def ex_qb_def)

end
